theory Spec2Isabelle
  imports Main "HOL-Library.Word" "HOL-Library.Multiset"
begin

unbundle bit_operations_syntax

section \<open>Data model\<close>

text \<open>
  The planner and the register layer of the serial driver, embedded function by function.
  Every C++ \<^verbatim>\<open>assert\<close> and every \<^verbatim>\<open>throw\<close> of the embedded functions is a branch of
  the model: a function that can fail returns \<open>error + 'a\<close>, with \<open>Inl\<close> for the failure.
\<close>

datatype error = AssertionFailed | TSerialDeviceException

type_synonym u8 = "8 word"
type_synonym u16 = "16 word"
type_synonym u32 = "32 word"
type_synonym u64 = "64 word"

subsection \<open>Flag enumerations\<close>

text \<open>
  Modelled from the spec: the header that declares \<^verbatim>\<open>EErrorState\<close>, \<^verbatim>\<open>EPublishData\<close>
  and the flag helpers \<^verbatim>\<open>Add\<close>, \<^verbatim>\<open>Remove\<close>, \<^verbatim>\<open>Has\<close> is not among the sources. The
  error state is the flag set of \<open>ReadError\<close> and \<open>WriteError\<close> with the sentinel
  \<open>UnknownErrorState\<close>; the publish flags are the flag set of \<open>Value\<close> and \<open>Error\<close>.
  Flags are single bits of a byte; the helpers set, clear and test bits.
\<close>

type_synonym EErrorState = u8
type_synonym EPublishData = u8

definition NoError :: EErrorState where "NoError = 0"
definition WriteError :: EErrorState where "WriteError = 1"
definition ReadError :: EErrorState where "ReadError = 2"
definition ReadWriteError :: EErrorState where "ReadWriteError = 3"
definition UnknownErrorState :: EErrorState where "UnknownErrorState = 4"

definition EPublishData_None :: EPublishData where "EPublishData_None = 0"
definition EPublishData_Value :: EPublishData where "EPublishData_Value = 1"
definition EPublishData_Error :: EPublishData where "EPublishData_Error = 2"

definition Add :: "u8 \<Rightarrow> u8 \<Rightarrow> u8" where
  "Add a b = a OR b"

definition Remove :: "u8 \<Rightarrow> u8 \<Rightarrow> u8" where
  "Remove a b = a AND NOT b"

definition Has :: "u8 \<Rightarrow> u8 \<Rightarrow> bool" where
  "Has a b = (a AND b = b)"

subsection \<open>Memory blocks\<close>

text \<open>
  \<^verbatim>\<open>TMemoryBlockType\<close>: the fields the embedded code reads. The type's own \<^verbatim>\<open>Size\<close> and
  \<^verbatim>\<open>ReadOnly\<close> are called \<open>TypeSize\<close> and \<open>TypeReadOnly\<close> here, to keep them apart from
  the fields of the same name of blocks and registers.
\<close>

record TMemoryBlockType =
  Index :: u32
  Name :: string
  TypeSize :: u16
  TypeReadOnly :: bool

text \<open>
  The external linkage of a block: the two local structs of \<^verbatim>\<open>InitExternalLinkage\<close>.
  Devices and virtual registers are referred to by identifiers (the C++ holds weak
  pointers); \<open>TVirtualRegisterLinkage\<close> carries its \<^verbatim>\<open>VirtualRegisters\<close> set as the list
  of its elements in the set's order.
\<close>

datatype IExternalLinkage =
    TSerialDeviceLinkage nat
  | TVirtualRegisterLinkage "nat list"

record TMemoryBlock =
  Address :: u32
  Type :: TMemoryBlockType
  Size :: u16
  ExternalLinkage :: "IExternalLinkage option"

text \<open>\<^verbatim>\<open>TMemoryBlock::operator<\<close>: by type index, then by address.\<close>

definition block_less :: "TMemoryBlock \<Rightarrow> TMemoryBlock \<Rightarrow> bool" where
  "block_less lhs rhs \<longleftrightarrow>
     Index (Type lhs) < Index (Type rhs) \<or>
     (Index (Type lhs) = Index (Type rhs) \<and> Address lhs < Address rhs)"

record TIRBindInfo =
  BitStart :: u16
  BitEnd :: u16

subsection \<open>Write queries\<close>

datatype EQueryStatus = NotExecuted | Ok | DeviceError | UnknownError

datatype EWordOrder = BigEndian | LittleEndian

text \<open>
  \<^verbatim>\<open>TIRDeviceValueContext\<close>: the triple built by \<^verbatim>\<open>GetValueContext\<close> and
  \<^verbatim>\<open>GetValueToWriteContext\<close>. The value formatter it refers to is represented by the raw
  64-bit value the formatter holds.
\<close>

record TIRDeviceValueContext =
  CtxMemoryBlocks :: "(TMemoryBlock \<times> TIRBindInfo) list"
  CtxWordOrder :: EWordOrder
  CtxValue :: u64

text \<open>
  Modelled from the spec: \<^verbatim>\<open>TIRDeviceValueQuery\<close> is not among the sources. A query has a
  status, one of the four above, and the values to send, one for each contributing
  virtual register; \<open>ResetStatus\<close> puts the status back to \<open>NotExecuted\<close> and \<open>GetStatus\<close>
  reads the status.
\<close>

record TIRDeviceValueQuery =
  Status :: EQueryStatus
  QueryValues :: "u64 option list"



subsection \<open>Virtual registers\<close>

text \<open>
  \<^verbatim>\<open>TVirtualRegister\<close> with the fields of \<^verbatim>\<open>TRegisterConfig\<close> that the embedded code reads
  (\<open>RegType\<close> is the configuration's \<^verbatim>\<open>Type\<close>). \<open>CurrentValue\<close> and \<open>ValueToWrite\<close> are
  the raw values held by the two formatters; \<open>ValueToWrite\<close> is absent for a read-only
  register. \<open>Device\<close> is the identifier of the owning device.
\<close>

record TVirtualRegister =
  RegType :: u32
  ReadOnly :: bool
  Poll :: bool
  HasErrorValue :: bool
  ErrorValue :: u64
  WordOrder :: EWordOrder
  Device :: nat
  MemoryBlocks :: "(TMemoryBlock \<times> TIRBindInfo) list"
  ValueToWrite :: "u64 option"
  CurrentValue :: u64
  WriteQuery :: "TIRDeviceValueQuery option"
  ErrorState :: EErrorState
  ChangedPublishData :: EPublishData
  Dirty :: bool
  Enabled :: bool
  ValueIsRead :: bool
  ValueWasAccepted :: bool


definition NeedToPoll :: "TVirtualRegister \<Rightarrow> bool" where
  "NeedToPoll r \<longleftrightarrow> Poll r \<and> \<not> Dirty r"

definition UpdateReadError :: "TVirtualRegister \<Rightarrow> bool \<Rightarrow> TVirtualRegister" where
  "UpdateReadError r err =
     (let beforeState = ErrorState r;
          r1 = (if ErrorState r = UnknownErrorState then r\<lparr>ErrorState := NoError\<rparr> else r);
          r2 = (if err then r1\<lparr>ErrorState := Add (ErrorState r1) ReadError\<rparr>
                else r1\<lparr>ErrorState := Remove (ErrorState r1) ReadError\<rparr>)
      in if ErrorState r2 \<noteq> beforeState
         then r2\<lparr>ChangedPublishData := Add (ChangedPublishData r2) EPublishData_Error\<rparr>
         else r2)"

definition UpdateWriteError :: "TVirtualRegister \<Rightarrow> bool \<Rightarrow> TVirtualRegister" where
  "UpdateWriteError r err =
     (let beforeState = ErrorState r;
          r1 = (if ErrorState r = UnknownErrorState then r\<lparr>ErrorState := NoError\<rparr> else r);
          r2 = (if err then r1\<lparr>ErrorState := Add (ErrorState r1) WriteError\<rparr>
                else r1\<lparr>ErrorState := Remove (ErrorState r1) WriteError\<rparr>)
      in if ErrorState r2 \<noteq> beforeState
         then r2\<lparr>ChangedPublishData := Add (ChangedPublishData r2) EPublishData_Error\<rparr>
         else r2)"

definition AcceptDeviceValue :: "TVirtualRegister \<Rightarrow> u64 \<Rightarrow> error + TVirtualRegister" where
  "AcceptDeviceValue r new_value =
     (if \<not> NeedToPoll r then Inr r
      else if ValueIsRead r then Inl AssertionFailed
      else
        let r1 = r\<lparr>ValueIsRead := True\<rparr>;
            firstPoll = \<not> ValueWasAccepted r1;
            r2 = r1\<lparr>ValueWasAccepted := True\<rparr>
        in if HasErrorValue r2 \<and> ErrorValue r2 = new_value then Inr (UpdateReadError r2 True)
           else if CurrentValue r2 \<noteq> new_value then
             Inr (UpdateReadError
                    (r2\<lparr>CurrentValue := new_value,
                        ChangedPublishData := Add (ChangedPublishData r2) EPublishData_Value\<rparr>)
                    False)
           else if firstPoll then
             Inr (UpdateReadError
                    (r2\<lparr>ChangedPublishData := Add (ChangedPublishData r2) EPublishData_Value\<rparr>)
                    False)
           else Inr (UpdateReadError r2 False))"

definition InvalidateReadValues :: "TVirtualRegister \<Rightarrow> TVirtualRegister" where
  "InvalidateReadValues r = r\<lparr>ValueIsRead := False\<rparr>"


definition GetValueToWriteContext :: "TVirtualRegister \<Rightarrow> error + TIRDeviceValueContext" where
  "GetValueToWriteContext r =
     (case ValueToWrite r of
        None \<Rightarrow> Inl AssertionFailed
      | Some v \<Rightarrow>
          Inr \<lparr>CtxMemoryBlocks = MemoryBlocks r, CtxWordOrder = WordOrder r, CtxValue = v\<rparr>)"


subsection \<open>Ordered sets of references\<close>

text \<open>
  \<^verbatim>\<open>TPSet\<close> and \<^verbatim>\<open>TPWSet\<close>, whose declarations are not among the sources, are taken to
  be \<^verbatim>\<open>std::set\<close> of pointers, compared through the objects they point to. Such a set is
  the list of its elements in the set's order.
  \<open>set_insert\<close> is \<^verbatim>\<open>std::set::insert\<close>: the element goes to its place in the order, and
  is not inserted when an equivalent element (neither less than the other) is present.
  \<open>set_find\<close> is \<^verbatim>\<open>std::set::find\<close>: the element equivalent to the key, if any.
\<close>

fun set_insert :: "('a \<Rightarrow> 'a \<Rightarrow> bool) \<Rightarrow> 'a \<Rightarrow> 'a list \<Rightarrow> 'a list" where
  "set_insert lt v [] = [v]"
| "set_insert lt v (x # xs) =
     (if lt v x then v # x # xs
      else if lt x v then x # set_insert lt v xs
      else x # xs)"

definition set_find :: "('a \<Rightarrow> 'a \<Rightarrow> bool) \<Rightarrow> 'a \<Rightarrow> 'a list \<Rightarrow> 'a option" where
  "set_find lt v xs = find (\<lambda>x. \<not> lt x v \<and> \<not> lt v x) xs"

subsection \<open>External linkage\<close>

text \<open>
  The two overloads of \<^verbatim>\<open>TMemoryBlock::InitExternalLinkage\<close>, returning the flag and the
  block as it is left. The order of the \<^verbatim>\<open>VirtualRegisters\<close> set, which compares the
  registers behind the weak pointers, is the parameter \<open>vless\<close>; \<open>regs\<close> gives the
  register behind each identifier.
\<close>

definition InitExternalLinkage_device :: "nat \<Rightarrow> TMemoryBlock \<Rightarrow> bool \<times> TMemoryBlock" where
  "InitExternalLinkage_device device mb =
     (case ExternalLinkage mb of
        Some (TSerialDeviceLinkage _) \<Rightarrow> (False, mb)
      | _ \<Rightarrow> (True, mb\<lparr>ExternalLinkage := Some (TSerialDeviceLinkage device)\<rparr>))"

definition LinkWithImpl :: "(nat \<Rightarrow> nat \<Rightarrow> bool) \<Rightarrow> nat \<Rightarrow> nat list \<Rightarrow> nat list" where
  "LinkWithImpl vless vreg VirtualRegisters = set_insert vless vreg VirtualRegisters"

definition InitExternalLinkage_vreg ::
  "(nat \<Rightarrow> nat \<Rightarrow> bool) \<Rightarrow> nat \<Rightarrow> TMemoryBlock \<Rightarrow> bool \<times> TMemoryBlock"
where
  "InitExternalLinkage_vreg vless vreg mb =
     (case ExternalLinkage mb of
        Some (TVirtualRegisterLinkage _) \<Rightarrow> (False, mb)
      | _ \<Rightarrow>
          (True, mb\<lparr>ExternalLinkage := Some (TVirtualRegisterLinkage (LinkWithImpl vless vreg []))\<rparr>))"

text \<open>
  \<^verbatim>\<open>TVirtualRegisterLinkage::LinkWith\<close>: four assertions, the overlap check, which throws,
  and the insertion. \<^verbatim>\<open>GetDevice\<close> and \<^verbatim>\<open>AssociatedVirtualRegister\<close> read the first
  register of the set.
\<close>

definition LinkWith ::
  "(nat \<Rightarrow> TVirtualRegister) \<Rightarrow> (nat \<Rightarrow> nat \<Rightarrow> bool) \<Rightarrow> nat list \<Rightarrow> nat \<Rightarrow> error + nat list"
where
  "LinkWith regs vless VirtualRegisters vreg =
     (if VirtualRegisters = [] then Inl AssertionFailed
      else if Device (regs (hd VirtualRegisters)) \<noteq> Device (regs vreg) then Inl AssertionFailed
      else if RegType (regs (hd VirtualRegisters)) \<noteq> RegType (regs vreg) then Inl AssertionFailed
      else if vreg \<in> set VirtualRegisters then Inl AssertionFailed
      else case set_find vless vreg VirtualRegisters of
             Some otherReg \<Rightarrow> Inl TSerialDeviceException
           | None \<Rightarrow> Inr (LinkWithImpl vless vreg VirtualRegisters))"

text \<open>
  \<^verbatim>\<open>TMemoryBlock::AssociateWith\<close>. \<^verbatim>\<open>LinkWith\<close> of a device linkage is \<^verbatim>\<open>assert(false)\<close>.
\<close>

definition AssociateWith ::
  "(nat \<Rightarrow> TVirtualRegister) \<Rightarrow> (nat \<Rightarrow> nat \<Rightarrow> bool) \<Rightarrow> nat \<Rightarrow> TMemoryBlock \<Rightarrow> error + TMemoryBlock"
where
  "AssociateWith regs vless vreg mb =
     (case InitExternalLinkage_vreg vless vreg mb of
        (True, mb') \<Rightarrow> Inr mb'
      | (False, mb') \<Rightarrow>
          (case ExternalLinkage mb' of
             Some (TVirtualRegisterLinkage vs) \<Rightarrow>
               (case LinkWith regs vless vs vreg of
                  Inl e \<Rightarrow> Inl e
                | Inr vs' \<Rightarrow> Inr (mb'\<lparr>ExternalLinkage := Some (TVirtualRegisterLinkage vs')\<rparr>))
           | _ \<Rightarrow> Inl AssertionFailed))"

subsection \<open>Cache necessity\<close>

text \<open>
  \<^verbatim>\<open>TVirtualRegister::GetMemoryBlockBindInfo\<close>: a lookup in the register's map of blocks,
  whose keys are compared with \<open>block_less\<close>, and an assertion that the block is there.
\<close>

definition GetMemoryBlockBindInfo :: "TVirtualRegister \<Rightarrow> TMemoryBlock \<Rightarrow> error + TIRBindInfo" where
  "GetMemoryBlockBindInfo r memoryBlock =
     (case find (\<lambda>(k, _). \<not> block_less k memoryBlock \<and> \<not> block_less memoryBlock k) (MemoryBlocks r) of
        None \<Rightarrow> Inl AssertionFailed
      | Some (_, bindInfo) \<Rightarrow> Inr bindInfo)"

text \<open>
  The helper \<^verbatim>\<open>AnyOf\<close> is not among the sources; it is taken to be \<^verbatim>\<open>std::any_of\<close> over
  the container, which stops at the first element that satisfies the predicate.
\<close>

fun AnyOf :: "('a \<Rightarrow> error + bool) \<Rightarrow> 'a list \<Rightarrow> error + bool" where
  "AnyOf p [] = Inr False"
| "AnyOf p (x # xs) =
     (case p x of
        Inl e \<Rightarrow> Inl e
      | Inr b \<Rightarrow> if b then Inr True else AnyOf p xs)"

text \<open>
  \<^verbatim>\<open>TVirtualRegisterLinkage::NeedsCaching\<close>, for the block \<open>memoryBlock\<close> the linkage belongs
  to. The full coverage is \<^verbatim>\<open>{0, static_cast<uint16_t>(Size * 8)}\<close>.
\<close>

definition Linkage_NeedsCaching ::
  "(nat \<Rightarrow> TVirtualRegister) \<Rightarrow> TMemoryBlock \<Rightarrow> nat list \<Rightarrow> error + bool"
where
  "Linkage_NeedsCaching regs memoryBlock VirtualRegisters =
     (if VirtualRegisters = [] then Inl AssertionFailed
      else
        let fullCoverage = \<lparr>BitStart = 0, BitEnd = Size memoryBlock * 8\<rparr>
        in AnyOf
             (\<lambda>wvreg.
                let vreg = regs wvreg;
                    writable = (\<not> TypeReadOnly (Type memoryBlock) \<and> \<not> ReadOnly vreg)
                in case GetMemoryBlockBindInfo vreg memoryBlock of
                     Inl e \<Rightarrow> Inl e
                   | Inr bindInfo \<Rightarrow> Inr (writable \<and> bindInfo \<noteq> fullCoverage))
             VirtualRegisters)"

text \<open>\<^verbatim>\<open>TMemoryBlock::NeedsCaching\<close>: false without linkage and for a device linkage.\<close>

definition NeedsCaching :: "(nat \<Rightarrow> TVirtualRegister) \<Rightarrow> TMemoryBlock \<Rightarrow> error + bool" where
  "NeedsCaching regs mb =
     (case ExternalLinkage mb of
        None \<Rightarrow> Inr False
      | Some (TSerialDeviceLinkage _) \<Rightarrow> Inr False
      | Some (TVirtualRegisterLinkage vs) \<Rightarrow> Linkage_NeedsCaching regs mb vs)"

subsection \<open>Query factory: limits per block type\<close>

datatype EQueryOperation = Read | Write

datatype EQueryGenerationPolicy = Minify | NoDuplicates

text \<open>
  The device configuration and the protocol information are outside the core; these are
  the fields and methods that \<^verbatim>\<open>GenerateQueries\<close> reads. The C++ \<^verbatim>\<open>int\<close> values are 32-bit
  words, read as signed where the code compares them as \<^verbatim>\<open>int\<close>.
\<close>

record TDeviceConfig =
  MaxBitHole :: u32
  MaxRegHole :: u32
  MaxReadRegisters :: u32

record TProtocolInfo =
  IsSingleBitType :: "TMemoryBlockType \<Rightarrow> bool"
  GetMaxReadBits :: u32
  GetMaxReadRegisters :: u32
  GetMaxWriteBits :: u32
  GetMaxWriteRegisters :: u32

type_synonym TRegisterTypeInfo = "TMemoryBlockType \<Rightarrow> u32 \<times> u32"

definition IsReadOperation :: "EQueryOperation \<Rightarrow> bool" where
  "IsReadOperation operation = (case operation of Read \<Rightarrow> True | Write \<Rightarrow> False)"

text \<open>
  The closure \<^verbatim>\<open>getMaxHoleAndRegs\<close> of \<^verbatim>\<open>GenerateQueries\<close>, with the variables it captures
  as parameters.
\<close>

definition getMaxHoleAndRegs ::
  "TDeviceConfig \<Rightarrow> TProtocolInfo \<Rightarrow> bool \<Rightarrow> bool \<Rightarrow> TRegisterTypeInfo"
where
  "getMaxHoleAndRegs deviceConfig protocolInfo isRead enableHoles type =
     (let singleBitType = IsSingleBitType protocolInfo type;
          maxHole = (if enableHoles
                     then (if singleBitType then MaxBitHole deviceConfig
                           else MaxRegHole deviceConfig)
                     else 0);
          maxRegs =
            (if isRead then
               let protocolMaximum = (if singleBitType then GetMaxReadBits protocolInfo
                                      else GetMaxReadRegisters protocolInfo)
               in if 0 <s MaxReadRegisters deviceConfig
                  then min (MaxReadRegisters deviceConfig) protocolMaximum
                  else protocolMaximum
             else (if singleBitType then GetMaxWriteBits protocolInfo
                   else GetMaxWriteRegisters protocolInfo))
      in (maxHole, maxRegs))"

text \<open>The type information that \<^verbatim>\<open>GenerateQueries\<close> hands to \<^verbatim>\<open>MergeSets\<close>.\<close>

definition GenerateQueries_typeInfo ::
  "TDeviceConfig \<Rightarrow> TProtocolInfo \<Rightarrow> EQueryOperation \<Rightarrow> EQueryGenerationPolicy \<Rightarrow> TRegisterTypeInfo"
where
  "GenerateQueries_typeInfo deviceConfig protocolInfo operation policy =
     getMaxHoleAndRegs deviceConfig protocolInfo (IsReadOperation operation) (policy = Minify)"

subsection \<open>Query factory: holes and counts\<close>

text \<open>
  Modelled from the spec: \<^verbatim>\<open>TSerialDevice::StaticCreateMemoryBlockRange\<close> is not among the
  sources. The range is a view over the device-wide ordered container of blocks, here
  the list \<open>deviceBlocks\<close> in the container's order: it yields the blocks of the
  container from the first block to the last, which for two blocks of one type are all the
  blocks of that type with an address in \<open>[first.address, last.address]\<close>.
\<close>

definition StaticCreateMemoryBlockRange ::
  "TMemoryBlock list \<Rightarrow> TMemoryBlock \<Rightarrow> TMemoryBlock \<Rightarrow> TMemoryBlock list"
where
  "StaticCreateMemoryBlockRange deviceBlocks firstBlock lastBlock =
     filter (\<lambda>mb. \<not> block_less mb firstBlock \<and> \<not> block_less lastBlock mb) deviceBlocks"

text \<open>
  The loop of \<^verbatim>\<open>GetMaxHoleSize\<close>. \<open>prev\<close> is the C++ \<^verbatim>\<open>int\<close>: a 32-bit word compared as
  signed, starting at \<open>-1\<close>; the subtraction is the unsigned one of the C++.
\<close>

fun GetMaxHoleSize_loop :: "u32 \<Rightarrow> u32 \<Rightarrow> TMemoryBlock list \<Rightarrow> error + u32" where
  "GetMaxHoleSize_loop hole prev [] = Inr hole"
| "GetMaxHoleSize_loop hole prev (mb # rest) =
     (if \<not> prev <s Address mb then Inl AssertionFailed
      else GetMaxHoleSize_loop
             (if 0 \<le>s prev then max hole ((Address mb - prev) - 1) else hole)
             (Address mb) rest)"

definition GetMaxHoleSize :: "TMemoryBlock list \<Rightarrow> TMemoryBlock \<Rightarrow> TMemoryBlock \<Rightarrow> error + u32" where
  "GetMaxHoleSize deviceBlocks firstBlock lastBlock =
     (if \<not> Address firstBlock \<le> Address lastBlock then Inl AssertionFailed
      else GetMaxHoleSize_loop 0 (- 1)
             (StaticCreateMemoryBlockRange deviceBlocks firstBlock lastBlock))"

text \<open>
  The overloads on a block set read its first and last block; \<^verbatim>\<open>*begin()\<close> of an empty
  set is undefined in the C++ and \<open>hd []\<close> is unspecified here.
\<close>

definition GetMaxHoleSize_set :: "TMemoryBlock list \<Rightarrow> TMemoryBlock list \<Rightarrow> error + u32" where
  "GetMaxHoleSize_set deviceBlocks memoryBlockSet =
     GetMaxHoleSize deviceBlocks (hd memoryBlockSet) (last memoryBlockSet)"

definition GetRegCount :: "TMemoryBlock \<Rightarrow> TMemoryBlock \<Rightarrow> error + u32" where
  "GetRegCount firstBlock lastBlock =
     (if \<not> Address firstBlock \<le> Address lastBlock then Inl AssertionFailed
      else Inr (Address lastBlock - Address firstBlock + 1))"

definition GetRegCount_set :: "TMemoryBlock list \<Rightarrow> error + u32" where
  "GetRegCount_set memoryBlockSet = GetRegCount (hd memoryBlockSet) (last memoryBlockSet)"

definition GetType :: "TMemoryBlock list \<Rightarrow> TMemoryBlockType" where
  "GetType memoryBlockSet = Type (hd memoryBlockSet)"

definition GetSize :: "TMemoryBlock list \<Rightarrow> u16" where
  "GetSize memoryBlockSet = Size (hd memoryBlockSet)"

subsection \<open>Query factory: the check of the input sets\<close>

text \<open>
  A \<^verbatim>\<open>TAssociatedMemoryBlockSet\<close>: the ordered set of blocks and the list of the virtual
  registers that contribute them.
\<close>

type_synonym TAssociatedMemoryBlockSet = "TMemoryBlock list \<times> nat list"

text \<open>The inner loop of \<^verbatim>\<open>CheckSets\<close>, over the blocks of one set.\<close>

fun CheckSets_types :: "u32 \<Rightarrow> u16 \<Rightarrow> TMemoryBlock list \<Rightarrow> error + unit" where
  "CheckSets_types typeIndex blockSize [] = Inr ()"
| "CheckSets_types typeIndex blockSize (mb # rest) =
     (if Index (Type mb) \<noteq> typeIndex then Inl TSerialDeviceException
      else if Size mb \<noteq> blockSize then Inl TSerialDeviceException
      else CheckSets_types typeIndex blockSize rest)"

text \<open>The body of the outer loop of \<^verbatim>\<open>CheckSets\<close>, for one set.\<close>

definition CheckSets_body ::
  "TMemoryBlock list \<Rightarrow> TRegisterTypeInfo \<Rightarrow> TMemoryBlock list \<Rightarrow> error + unit"
where
  "CheckSets_body deviceBlocks typeInfo memoryBlockSet =
     (case typeInfo (GetType memoryBlockSet) of
        (maxHole, maxRegs) \<Rightarrow>
          (case GetMaxHoleSize_set deviceBlocks memoryBlockSet of
             Inl e \<Rightarrow> Inl e
           | Inr hole \<Rightarrow>
               if hole > maxHole then Inl TSerialDeviceException
               else
                 (case GetRegCount_set memoryBlockSet of
                    Inl e \<Rightarrow> Inl e
                  | Inr regCount \<Rightarrow>
                      if regCount > maxRegs then Inl TSerialDeviceException
                      else CheckSets_types (Index (GetType memoryBlockSet))
                             (GetSize memoryBlockSet) memoryBlockSet)))"

fun CheckSets ::
  "TMemoryBlock list \<Rightarrow> TAssociatedMemoryBlockSet list \<Rightarrow> TRegisterTypeInfo \<Rightarrow> error + unit"
where
  "CheckSets deviceBlocks [] typeInfo = Inr ()"
| "CheckSets deviceBlocks (memoryBlockSet # rest) typeInfo =
     (case CheckSets_body deviceBlocks typeInfo (fst memoryBlockSet) of
        Inl e \<Rightarrow> Inl e
      | Inr _ \<Rightarrow> CheckSets deviceBlocks rest typeInfo)"

subsection \<open>Query factory: merging\<close>

text \<open>
  The two conditions of \<^verbatim>\<open>MergeSets\<close>. Modelled from the spec: the comparison of two
  \<^verbatim>\<open>TMemoryBlockType\<close> is not among the sources; two types are equal when their indexes
  are. The equality of two block sets under NoDuplicates compares the sets element by
  element: they are equal when they hold the same blocks.
\<close>

definition mergeCondition ::
  "TMemoryBlock list \<Rightarrow> TMemoryBlock list \<Rightarrow> TMemoryBlock list \<Rightarrow> TRegisterTypeInfo \<Rightarrow> error + bool"
where
  "mergeCondition deviceBlocks a b typeInfo =
     (if Index (GetType a) \<noteq> Index (GetType b) then Inr False
      else
        let firstBlock = (if block_less (hd a) (hd b) then hd a else hd b);
            lastBlock = (if block_less (last b) (last a) then last a else last b)
        in case typeInfo (GetType a) of
             (maxHole, maxRegs) \<Rightarrow>
               (case GetMaxHoleSize deviceBlocks firstBlock lastBlock of
                  Inl e \<Rightarrow> Inl e
                | Inr holeAfterMerge \<Rightarrow>
                    let regsAfterMerge = Address lastBlock - Address firstBlock + 1
                    in Inr (GetSize a = GetSize b \<and> holeAfterMerge \<le> maxHole \<and>
                            regsAfterMerge \<le> maxRegs)))"

definition noDuplicatesCondition ::
  "TMemoryBlock list \<Rightarrow> TMemoryBlock list \<Rightarrow> TRegisterTypeInfo \<Rightarrow> error + bool"
where
  "noDuplicatesCondition a b typeInfo = Inr (a = b)"

text \<open>
  The inner loop of \<^verbatim>\<open>MergeSets\<close>: the set at the outer iterator, \<open>cur\<close>, walks over the
  sets after it; a set that satisfies the condition is merged into \<open>cur\<close> (its blocks
  inserted into the block set, its registers appended) and erased from the list. The
  result is \<open>cur\<close> as it ends and the sets that remain.
\<close>

fun MergeSets_inner ::
  "(TMemoryBlock list \<Rightarrow> TMemoryBlock list \<Rightarrow> TRegisterTypeInfo \<Rightarrow> error + bool) \<Rightarrow>
   TRegisterTypeInfo \<Rightarrow> TAssociatedMemoryBlockSet \<Rightarrow> TAssociatedMemoryBlockSet list \<Rightarrow>
   error + (TAssociatedMemoryBlockSet \<times> TAssociatedMemoryBlockSet list)"
where
  "MergeSets_inner condition typeInfo cur [] = Inr (cur, [])"
| "MergeSets_inner condition typeInfo cur (other # rest) =
     (case condition (fst cur) (fst other) typeInfo of
        Inl e \<Rightarrow> Inl e
      | Inr c \<Rightarrow>
          if \<not> c then
            (case MergeSets_inner condition typeInfo cur rest of
               Inl e \<Rightarrow> Inl e
             | Inr (cur', rest') \<Rightarrow> Inr (cur', other # rest'))
          else
            MergeSets_inner condition typeInfo
              (fold (set_insert block_less) (fst other) (fst cur), snd cur @ snd other) rest)"

text \<open>The outer loop of \<^verbatim>\<open>MergeSets\<close>.\<close>

function MergeSets_outer ::
  "(TMemoryBlock list \<Rightarrow> TMemoryBlock list \<Rightarrow> TRegisterTypeInfo \<Rightarrow> error + bool) \<Rightarrow>
   TRegisterTypeInfo \<Rightarrow> TAssociatedMemoryBlockSet list \<Rightarrow> error + TAssociatedMemoryBlockSet list"
where
  "MergeSets_outer condition typeInfo [] = Inr []"
| "MergeSets_outer condition typeInfo (cur # rest) =
     (case MergeSets_inner condition typeInfo cur rest of
        Inl e \<Rightarrow> Inl e
      | Inr (cur', rest') \<Rightarrow>
          (case MergeSets_outer condition typeInfo rest' of
             Inl e \<Rightarrow> Inl e
           | Inr merged \<Rightarrow> Inr (cur' # merged)))"
  by pat_completeness auto
termination
proof (relation "measure (\<lambda>(condition, typeInfo, sets). length sets)")
  show "wf (measure (\<lambda>(condition, typeInfo, sets). length sets))"
    by simp
next
  fix condition :: "TMemoryBlock list \<Rightarrow> TMemoryBlock list \<Rightarrow> TRegisterTypeInfo \<Rightarrow> error + bool"
    and typeInfo :: TRegisterTypeInfo
    and cur cur' :: TAssociatedMemoryBlockSet
    and rest rest' :: "TAssociatedMemoryBlockSet list"
    and r
  assume r: "MergeSets_inner condition typeInfo cur rest = Inr r" and p: "(cur', rest') = r"
  have len: "\<And>c c' rs'. MergeSets_inner condition typeInfo c rest = Inr (c', rs') \<Longrightarrow>
          length rs' \<le> length rest"
  proof (induction rest)
    case Nil
    then show ?case by simp
  next
    case (Cons other rest)
    from Cons.prems show ?case
      by (auto split: sum.splits if_splits prod.splits dest: Cons.IH)
  qed
  from r p have "MergeSets_inner condition typeInfo cur rest = Inr (cur', rest')"
    by simp
  then have "length rest' \<le> length rest"
    by (rule len)
  then show "((condition, typeInfo, rest'), condition, typeInfo, cur # rest)
              \<in> measure (\<lambda>(condition, typeInfo, sets). length sets)"
    by simp
qed

text \<open>
  \<^verbatim>\<open>TIRDeviceQueryFactory::MergeSets\<close>: the check of the input sets, then the merge with
  the condition of the policy. The list of sets is returned as the merge leaves it.
\<close>

definition MergeSets ::
  "TMemoryBlock list \<Rightarrow> TAssociatedMemoryBlockSet list \<Rightarrow> TRegisterTypeInfo \<Rightarrow>
   EQueryGenerationPolicy \<Rightarrow> error + TAssociatedMemoryBlockSet list"
where
  "MergeSets deviceBlocks memoryBlockSets typeInfo policy =
     (case CheckSets deviceBlocks memoryBlockSets typeInfo of
        Inl e \<Rightarrow> Inl e
      | Inr _ \<Rightarrow>
          let condition = (if policy = NoDuplicates then noDuplicatesCondition
                           else mergeCondition deviceBlocks)
          in MergeSets_outer condition typeInfo memoryBlockSets)"

subsection \<open>The spec's words for holes and hulls\<close>

text \<open>
  The largest gap between consecutive addresses of an ascending list of addresses, and
  the blocks of a device of one type index within a hull of addresses, in the words of
  the specification; the theorems compare the code with them.
\<close>

fun spec_LargestGap :: "nat list \<Rightarrow> nat" where
  "spec_LargestGap (a # b # rest) = max (b - a - 1) (spec_LargestGap (b # rest))"
| "spec_LargestGap _ = 0"

definition spec_BlocksInHull :: "TMemoryBlock list \<Rightarrow> u32 \<Rightarrow> u32 \<Rightarrow> u32 \<Rightarrow> TMemoryBlock list" where
  "spec_BlocksInHull deviceBlocks typeIndex firstAddress lastAddress =
     filter (\<lambda>mb. Index (Type mb) = typeIndex \<and> firstAddress \<le> Address mb \<and>
                  Address mb \<le> lastAddress) deviceBlocks"

definition spec_Addresses :: "TMemoryBlock list \<Rightarrow> nat list" where
  "spec_Addresses blocks = map (\<lambda>mb. unat (Address mb)) blocks"

text \<open>
  A block set is within the limits of its type, in the words of the specification but
  with the gap taken over the device's blocks within the set's hull: all blocks have the
  type index and the size of the first block, the largest gap is at most \<open>maxHole\<close>, and
  the width of the hull is at most \<open>maxRegs\<close>. \<open>spec_OwnGap\<close> is the largest gap between
  consecutive blocks of the set itself.
\<close>

definition spec_SetWithinLimits ::
  "TMemoryBlock list \<Rightarrow> TRegisterTypeInfo \<Rightarrow> TMemoryBlock list \<Rightarrow> bool"
where
  "spec_SetWithinLimits deviceBlocks typeInfo s =
     (case typeInfo (GetType s) of
        (maxHole, maxRegs) \<Rightarrow>
          (\<forall>mb\<in>set s. Index (Type mb) = Index (GetType s) \<and> Size mb = GetSize s) \<and>
          spec_LargestGap (spec_Addresses (spec_BlocksInHull deviceBlocks (Index (GetType s))
            (Address (hd s)) (Address (last s)))) \<le> unat maxHole \<and>
          unat (Address (last s)) - unat (Address (hd s)) + 1 \<le> unat maxRegs)"

definition spec_OwnGap :: "TMemoryBlock list \<Rightarrow> nat" where
  "spec_OwnGap s = spec_LargestGap (spec_Addresses s)"

subsection \<open>Example registers\<close>

text \<open>
  A polled, writable register with an error value configured, before its first poll; the
  same register with a write pending; and the same register with polling switched off.
\<close>

definition reg_fresh :: TVirtualRegister where
  "reg_fresh =
     \<lparr>RegType = 0, ReadOnly = False, Poll = True, HasErrorValue = True, ErrorValue = 0xFFFF,
      WordOrder = BigEndian, Device = 0, MemoryBlocks = [], ValueToWrite = Some 0x22,
      CurrentValue = 0x11, WriteQuery = Some \<lparr>Status = NotExecuted, QueryValues = []\<rparr>,
      ErrorState = UnknownErrorState, ChangedPublishData = EPublishData_None, Dirty = False,
      Enabled = True, ValueIsRead = False, ValueWasAccepted = False\<rparr>"

definition reg_dirty :: TVirtualRegister where
  "reg_dirty = reg_fresh\<lparr>Dirty := True\<rparr>"

definition reg_unpolled :: TVirtualRegister where
  "reg_unpolled = reg_fresh\<lparr>Poll := False\<rparr>"

text \<open>The register \<open>reg_fresh\<close> after a first poll that delivered its error value.\<close>

definition reg_after_error :: TVirtualRegister where
  "reg_after_error =
     reg_fresh\<lparr>ErrorState := ReadError, ChangedPublishData := EPublishData_Error,
               ValueIsRead := True, ValueWasAccepted := True\<rparr>"



subsection \<open>Example blocks\<close>

text \<open>
  A writable two-byte block type; the block of that type at an address, without linkage;
  the block at 100 as a device creates it; a read-only register that covers the low byte
  of the block at 100; and that block linked with this register alone.
\<close>

definition type_holding :: TMemoryBlockType where
  "type_holding = \<lparr>Index = 0, Name = ''holding'', TypeSize = 2, TypeReadOnly = False\<rparr>"

definition block_at :: "u32 \<Rightarrow> TMemoryBlock" where
  "block_at a = \<lparr>Address = a, Type = type_holding, Size = 2, ExternalLinkage = None\<rparr>"

definition mb_device :: TMemoryBlock where
  "mb_device = (block_at 100)\<lparr>ExternalLinkage := Some (TSerialDeviceLinkage 0)\<rparr>"

definition reg_readonly_partial :: TVirtualRegister where
  "reg_readonly_partial =
     reg_fresh\<lparr>ReadOnly := True, MemoryBlocks := [(block_at 100, \<lparr>BitStart = 0, BitEnd = 8\<rparr>)],
               ValueToWrite := None, WriteQuery := None\<rparr>"

definition regs_readonly :: "nat \<Rightarrow> TVirtualRegister" where
  "regs_readonly = (\<lambda>v. reg_readonly_partial)"

definition mb_linked :: TMemoryBlock where
  "mb_linked = (block_at 100)\<lparr>ExternalLinkage := Some (TVirtualRegisterLinkage [1])\<rparr>"

text \<open>A writable register that covers the low byte of the block at 100.\<close>

definition reg_writable_partial :: TVirtualRegister where
  "reg_writable_partial =
     reg_fresh\<lparr>MemoryBlocks := [(block_at 100, \<lparr>BitStart = 0, BitEnd = 8\<rparr>)]\<rparr>"

definition regs_writable :: "nat \<Rightarrow> TVirtualRegister" where
  "regs_writable = (\<lambda>v. reg_writable_partial)"

subsection \<open>Example devices\<close>

text \<open>
  A device with the blocks 100 to 103 of the one type; limits that allow no hole and 125
  blocks; limits that allow no hole and two blocks; and a device with the blocks 100 to
  102.
\<close>

definition device_100_103 :: "TMemoryBlock list" where
  "device_100_103 = [block_at 100, block_at 101, block_at 102, block_at 103]"

definition typeInfo_no_hole :: TRegisterTypeInfo where
  "typeInfo_no_hole = (\<lambda>type. (0, 125))"

definition typeInfo_two_regs :: TRegisterTypeInfo where
  "typeInfo_two_regs = (\<lambda>type. (0, 2))"



definition device_100_102 :: "TMemoryBlock list" where
  "device_100_102 = [block_at 100, block_at 101, block_at 102]"

text \<open>
  Three input entries on the device with the blocks 100 to 102: the first and the third
  carry the same block set, the second another one.
\<close>

definition sets_interleaved :: "TAssociatedMemoryBlockSet list" where
  "sets_interleaved = [([block_at 100], [1]), ([block_at 101], [2]), ([block_at 100], [3])]"

section \<open>Virtual register state\<close>

lemma flag_values:
  "NoError = 0" "WriteError = 1" "ReadError = 2" "ReadWriteError = 3" "UnknownErrorState = 4"
  "EPublishData_None = 0" "EPublishData_Value = 1" "EPublishData_Error = 2"
  by (simp_all add: NoError_def WriteError_def ReadError_def ReadWriteError_def
      UnknownErrorState_def EPublishData_None_def EPublishData_Value_def EPublishData_Error_def)

text \<open>
  C10. A register that is not polled, or that has a write pending, ignores a value from
  the device: \<open>AcceptDeviceValue\<close> returns the register as it was, for every raw value.
\<close>

theorem AcceptDeviceValue_not_polled:
  "\<not> Poll r \<or> Dirty r \<Longrightarrow> AcceptDeviceValue r raw = Inr r"
  by (auto simp add: AcceptDeviceValue_def NeedToPoll_def)

theorem AcceptDeviceValue_not_polled_witness:
  "\<not> Poll reg_unpolled \<and> AcceptDeviceValue reg_unpolled 0x33 = Inr reg_unpolled \<and>
   Dirty reg_dirty \<and> AcceptDeviceValue reg_dirty 0x33 = Inr reg_dirty"
  using AcceptDeviceValue_not_polled [of reg_unpolled "0x33"]
    AcceptDeviceValue_not_polled [of reg_dirty "0x33"]
  by (simp add: reg_unpolled_def reg_dirty_def)

subsection \<open>Flag algebra\<close>

lemma Has_Add_same: "Has (Add a b) b"
  by (simp add: Has_def Add_def bit.conj_disj_distrib2)

lemma Has_Remove_same: "b \<noteq> 0 \<Longrightarrow> \<not> Has (Remove a b) b"
  by (simp add: Has_def Remove_def and.assoc)

lemma Has_Add_other: "b AND c = 0 \<Longrightarrow> Has (Add a b) c = Has a c"
  by (simp add: Has_def Add_def bit.conj_disj_distrib2)

subsection \<open>Error state\<close>

lemma ErrorState_UpdateReadError:
  "ErrorState (UpdateReadError r err) =
     (if err then Add (if ErrorState r = UnknownErrorState then NoError else ErrorState r) ReadError
      else Remove (if ErrorState r = UnknownErrorState then NoError else ErrorState r) ReadError)"
  by (simp add: UpdateReadError_def Let_def)

lemma ErrorState_UpdateWriteError:
  "ErrorState (UpdateWriteError r err) =
     (if err then Add (if ErrorState r = UnknownErrorState then NoError else ErrorState r) WriteError
      else Remove (if ErrorState r = UnknownErrorState then NoError else ErrorState r) WriteError)"
  by (simp add: UpdateWriteError_def Let_def)

lemma ChangedPublishData_UpdateReadError:
  "ChangedPublishData (UpdateReadError r err) =
     (if ErrorState (UpdateReadError r err) \<noteq> ErrorState r
      then Add (ChangedPublishData r) EPublishData_Error else ChangedPublishData r)"
  by (simp add: UpdateReadError_def Let_def)

lemma ChangedPublishData_UpdateWriteError:
  "ChangedPublishData (UpdateWriteError r err) =
     (if ErrorState (UpdateWriteError r err) \<noteq> ErrorState r
      then Add (ChangedPublishData r) EPublishData_Error else ChangedPublishData r)"
  by (simp add: UpdateWriteError_def Let_def)

lemma Has_Value_after_UpdateReadError:
  "Has (ChangedPublishData (UpdateReadError r err)) EPublishData_Value =
   Has (ChangedPublishData r) EPublishData_Value"
  by (simp add: ChangedPublishData_UpdateReadError Has_Add_other flag_values)

lemma Has_ReadError_after_UpdateReadError:
  "Has (ErrorState (UpdateReadError r err)) ReadError = err"
  by (simp add: ErrorState_UpdateReadError Has_Add_same Has_Remove_same flag_values)

lemma UpdateReadError_frame:
  "CurrentValue (UpdateReadError r err) = CurrentValue r"
  "ValueIsRead (UpdateReadError r err) = ValueIsRead r"
  "ValueWasAccepted (UpdateReadError r err) = ValueWasAccepted r"
  by (simp_all add: UpdateReadError_def Let_def)

text \<open>
  C9. The error state is a set of the two flags \<open>ReadError\<close> and \<open>WriteError\<close>, or the
  sentinel \<open>UnknownErrorState\<close>. From any such state, an update of the read error or of the
  write error leaves a set of the two flags (the sentinel is gone); the first update
  without error, from the sentinel, gives \<open>NoError\<close>; the updated flag is set exactly when
  the update reports an error; and \<open>Error\<close> is added to the changed publish flags exactly
  when the error state after the update differs from the one before, the publish flags
  staying as they were otherwise.
\<close>

theorem UpdateError_flags:
  assumes "ErrorState r \<in> {UnknownErrorState, NoError, WriteError, ReadError, ReadWriteError}"
  shows "ErrorState (UpdateReadError r err) \<in> {NoError, WriteError, ReadError, ReadWriteError} \<and>
         ErrorState (UpdateWriteError r err) \<in> {NoError, WriteError, ReadError, ReadWriteError} \<and>
         (ErrorState r = UnknownErrorState \<longrightarrow>
            ErrorState (UpdateReadError r False) = NoError \<and>
            ErrorState (UpdateWriteError r False) = NoError) \<and>
         Has (ErrorState (UpdateReadError r err)) ReadError = err \<and>
         Has (ErrorState (UpdateWriteError r err)) WriteError = err \<and>
         ChangedPublishData (UpdateReadError r err) =
           (if ErrorState (UpdateReadError r err) \<noteq> ErrorState r
            then Add (ChangedPublishData r) EPublishData_Error else ChangedPublishData r) \<and>
         ChangedPublishData (UpdateWriteError r err) =
           (if ErrorState (UpdateWriteError r err) \<noteq> ErrorState r
            then Add (ChangedPublishData r) EPublishData_Error else ChangedPublishData r)"
proof -
  have "ErrorState (UpdateReadError r err) \<in> {NoError, WriteError, ReadError, ReadWriteError}"
    using assms by (auto simp add: ErrorState_UpdateReadError Add_def Remove_def flag_values)
  moreover have "ErrorState (UpdateWriteError r err) \<in> {NoError, WriteError, ReadError, ReadWriteError}"
    using assms by (auto simp add: ErrorState_UpdateWriteError Add_def Remove_def flag_values)
  moreover have "ErrorState r = UnknownErrorState \<longrightarrow>
      ErrorState (UpdateReadError r False) = NoError \<and> ErrorState (UpdateWriteError r False) = NoError"
    by (simp add: ErrorState_UpdateReadError ErrorState_UpdateWriteError Remove_def flag_values)
  moreover have "Has (ErrorState (UpdateReadError r err)) ReadError = err"
    by (rule Has_ReadError_after_UpdateReadError)
  moreover have "Has (ErrorState (UpdateWriteError r err)) WriteError = err"
    by (simp add: ErrorState_UpdateWriteError Has_Add_same Has_Remove_same flag_values)
  ultimately show ?thesis
    using ChangedPublishData_UpdateReadError [of r err] ChangedPublishData_UpdateWriteError [of r err]
    by blast
qed

theorem UpdateError_flags_witness:
  "ErrorState reg_fresh \<in> {UnknownErrorState, NoError, WriteError, ReadError, ReadWriteError} \<and>
   ErrorState reg_fresh = UnknownErrorState \<and>
   ErrorState (UpdateReadError reg_fresh False) = NoError \<and>
   ErrorState (UpdateWriteError reg_fresh False) = NoError \<and>
   ChangedPublishData (UpdateReadError reg_fresh False) =
     Add (ChangedPublishData reg_fresh) EPublishData_Error"
proof -
  have h: "ErrorState reg_fresh \<in> {UnknownErrorState, NoError, WriteError, ReadError, ReadWriteError}"
    by (simp add: reg_fresh_def)
  have u: "ErrorState reg_fresh = UnknownErrorState"
    by (simp add: reg_fresh_def)
  from UpdateError_flags [OF h, of False] u h show ?thesis
    by (simp add: flag_values)
qed

subsection \<open>Values from the device\<close>

text \<open>
  C8 (amended). For a register that needs polling, one with the poll flag set and the
  dirty flag clear, and whose value has not been read yet in this cycle,
  \<open>AcceptDeviceValue\<close> returns normally, sets \<open>ValueIsRead\<close> and \<open>ValueWasAccepted\<close>,
  and: if an error value is configured and the raw value equals it, the
  current value stays, the \<open>ReadError\<close> bit is set and the \<open>Value\<close> publish flag is left as
  it was, on the first poll too; otherwise the current value becomes the raw value, the
  \<open>ReadError\<close> bit is cleared, and the \<open>Value\<close> publish flag is set when the raw value
  differs from the current value or when no poll had been accepted before, and is left as
  it was in the remaining case.
\<close>

theorem AcceptDeviceValue_polled:
  assumes "NeedToPoll r" and "\<not> ValueIsRead r"
  shows "\<exists>r'. AcceptDeviceValue r raw = Inr r' \<and> ValueIsRead r' \<and> ValueWasAccepted r' \<and>
    (if HasErrorValue r \<and> ErrorValue r = raw
     then CurrentValue r' = CurrentValue r \<and> Has (ErrorState r') ReadError \<and>
          Has (ChangedPublishData r') EPublishData_Value =
            Has (ChangedPublishData r) EPublishData_Value
     else CurrentValue r' = raw \<and> \<not> Has (ErrorState r') ReadError \<and>
          Has (ChangedPublishData r') EPublishData_Value =
            (CurrentValue r \<noteq> raw \<or> \<not> ValueWasAccepted r \<or>
             Has (ChangedPublishData r) EPublishData_Value))"
  using assms
  by (simp add: AcceptDeviceValue_def Let_def Has_Value_after_UpdateReadError
      Has_ReadError_after_UpdateReadError UpdateReadError_frame Has_Add_same)

theorem AcceptDeviceValue_polled_witness:
  "NeedToPoll reg_fresh \<and> \<not> ValueIsRead reg_fresh \<and>
   (\<exists>r'. AcceptDeviceValue reg_fresh 0x11 = Inr r' \<and> ValueIsRead r' \<and> ValueWasAccepted r' \<and>
      CurrentValue r' = 0x11 \<and> \<not> Has (ErrorState r') ReadError \<and>
      Has (ChangedPublishData r') EPublishData_Value) \<and>
   (\<exists>r'. AcceptDeviceValue reg_fresh 0xFFFF = Inr r' \<and> ValueIsRead r' \<and> ValueWasAccepted r' \<and>
      CurrentValue r' = 0x11 \<and> Has (ErrorState r') ReadError \<and>
      \<not> Has (ChangedPublishData r') EPublishData_Value)"
  using AcceptDeviceValue_polled [of reg_fresh "0x11"] AcceptDeviceValue_polled [of reg_fresh "0xFFFF"]
  by (simp add: reg_fresh_def NeedToPoll_def Has_def flag_values)

text \<open>
  The first poll of \<open>reg_fresh\<close> delivers the configured error value: the poll is the first
  one accepted (\<open>ValueWasAccepted\<close> goes from false to true), and the \<open>Value\<close> publish flag
  is not set. In the next cycle the device delivers \<open>0x11\<close>, which is the current value:
  this is the first value taken over from the device, and the \<open>Value\<close> publish flag is not
  set either.
\<close>

theorem AcceptDeviceValue_first_poll_error_value:
  "NeedToPoll reg_fresh \<and> \<not> ValueIsRead reg_fresh \<and> \<not> ValueWasAccepted reg_fresh \<and>
   AcceptDeviceValue reg_fresh 0xFFFF = Inr reg_after_error \<and>
   \<not> Has (ChangedPublishData reg_after_error) EPublishData_Value \<and>
   AcceptDeviceValue (InvalidateReadValues reg_after_error) 0x11 =
     Inr (reg_after_error\<lparr>ErrorState := NoError\<rparr>) \<and>
   \<not> Has (ChangedPublishData (reg_after_error\<lparr>ErrorState := NoError\<rparr>)) EPublishData_Value"
  by (simp add: AcceptDeviceValue_def NeedToPoll_def UpdateReadError_def InvalidateReadValues_def
      reg_after_error_def reg_fresh_def Let_def Add_def Remove_def Has_def flag_values)

subsection \<open>Flushing a pending write\<close>







section \<open>Memory block linkage\<close>

lemma set_set_insert:
  "\<forall>x\<in>set xs. lt v x \<or> lt x v \<Longrightarrow> set (set_insert lt v xs) = insert v (set xs)"
  by (induction xs) auto

lemma set_find_None: "set_find lt v xs = None \<longleftrightarrow> (\<forall>x\<in>set xs. lt x v \<or> lt v x)"
  by (auto simp add: set_find_def find_None_iff)

lemma AssociateWith_no_linkage:
  assumes "ExternalLinkage mb = None"
  shows "AssociateWith regs vless v mb =
           Inr (mb\<lparr>ExternalLinkage := Some (TVirtualRegisterLinkage [v])\<rparr>)"
  using assms by (simp add: AssociateWith_def InitExternalLinkage_vreg_def LinkWithImpl_def)

lemma AssociateWith_device_linkage:
  assumes "ExternalLinkage mb = Some (TSerialDeviceLinkage d0)"
  shows "AssociateWith regs vless v mb =
           Inr (mb\<lparr>ExternalLinkage := Some (TVirtualRegisterLinkage [v])\<rparr>)"
  using assms by (simp add: AssociateWith_def InitExternalLinkage_vreg_def LinkWithImpl_def)

lemma AssociateWith_register_linkage:
  assumes "ExternalLinkage mb = Some (TVirtualRegisterLinkage vs)"
  shows "AssociateWith regs vless v mb =
     (if vs = [] \<or> Device (regs (hd vs)) \<noteq> Device (regs v) \<or>
         RegType (regs (hd vs)) \<noteq> RegType (regs v) \<or> v \<in> set vs
      then Inl AssertionFailed
      else if \<exists>x\<in>set vs. \<not> vless x v \<and> \<not> vless v x then Inl TSerialDeviceException
      else Inr (mb\<lparr>ExternalLinkage := Some (TVirtualRegisterLinkage (set_insert vless v vs))\<rparr>))"
proof (cases "set_find vless v vs")
  case None
  then have "\<forall>x\<in>set vs. vless x v \<or> vless v x"
    by (simp add: set_find_None)
  with None assms show ?thesis
    by (auto simp add: AssociateWith_def InitExternalLinkage_vreg_def LinkWith_def LinkWithImpl_def)
next
  case (Some otherReg)
  then have "(\<exists>x\<in>set vs. \<not> vless x v \<and> \<not> vless v x) = True"
    using set_find_None [of vless v vs] by auto
  with Some assms show ?thesis
    by (simp add: AssociateWith_def InitExternalLinkage_vreg_def LinkWith_def)
qed

text \<open>
  C3 (amended). On a block without linkage, an association installs the variant of its
  kind: \<open>InitExternalLinkage\<close> with a device the device linkage, \<open>AssociateWith\<close> the
  register linkage of the one register. On a block with a register linkage,
  \<open>AssociateWith\<close> fails an assertion (no register, another device or type, the same
  register again), raises for a register equivalent to one already linked, and otherwise
  keeps the variant and inserts the register into the linked ones. On a block with a
  device linkage, \<open>InitExternalLinkage\<close> with a device changes nothing and returns false.
  An association of the other kind replaces the installed variant: \<open>AssociateWith\<close> turns a
  device linkage into the register linkage of the one register, and \<open>InitExternalLinkage\<close>
  with a device turns a register linkage into a device linkage.
\<close>

theorem linkage_transitions:
  "(ExternalLinkage mb = None \<longrightarrow>
      InitExternalLinkage_device d mb =
        (True, mb\<lparr>ExternalLinkage := Some (TSerialDeviceLinkage d)\<rparr>) \<and>
      AssociateWith regs vless v mb =
        Inr (mb\<lparr>ExternalLinkage := Some (TVirtualRegisterLinkage [v])\<rparr>)) \<and>
   (\<forall>vs. ExternalLinkage mb = Some (TVirtualRegisterLinkage vs) \<longrightarrow>
      AssociateWith regs vless v mb =
        (if vs = [] \<or> Device (regs (hd vs)) \<noteq> Device (regs v) \<or>
            RegType (regs (hd vs)) \<noteq> RegType (regs v) \<or> v \<in> set vs
         then Inl AssertionFailed
         else if \<exists>x\<in>set vs. \<not> vless x v \<and> \<not> vless v x then Inl TSerialDeviceException
         else Inr (mb\<lparr>ExternalLinkage := Some (TVirtualRegisterLinkage (set_insert vless v vs))\<rparr>)) \<and>
      ((\<forall>x\<in>set vs. vless v x \<or> vless x v) \<longrightarrow> set (set_insert vless v vs) = insert v (set vs)) \<and>
      InitExternalLinkage_device d mb =
        (True, mb\<lparr>ExternalLinkage := Some (TSerialDeviceLinkage d)\<rparr>)) \<and>
   (\<forall>d0. ExternalLinkage mb = Some (TSerialDeviceLinkage d0) \<longrightarrow>
      InitExternalLinkage_device d mb = (False, mb) \<and>
      AssociateWith regs vless v mb =
        Inr (mb\<lparr>ExternalLinkage := Some (TVirtualRegisterLinkage [v])\<rparr>))"
proof -
  have none: "ExternalLinkage mb = None \<longrightarrow>
      InitExternalLinkage_device d mb =
        (True, mb\<lparr>ExternalLinkage := Some (TSerialDeviceLinkage d)\<rparr>) \<and>
      AssociateWith regs vless v mb =
        Inr (mb\<lparr>ExternalLinkage := Some (TVirtualRegisterLinkage [v])\<rparr>)"
    by (simp add: AssociateWith_no_linkage InitExternalLinkage_device_def)
  have reg: "\<forall>vs. ExternalLinkage mb = Some (TVirtualRegisterLinkage vs) \<longrightarrow>
      AssociateWith regs vless v mb =
        (if vs = [] \<or> Device (regs (hd vs)) \<noteq> Device (regs v) \<or>
            RegType (regs (hd vs)) \<noteq> RegType (regs v) \<or> v \<in> set vs
         then Inl AssertionFailed
         else if \<exists>x\<in>set vs. \<not> vless x v \<and> \<not> vless v x then Inl TSerialDeviceException
         else Inr (mb\<lparr>ExternalLinkage := Some (TVirtualRegisterLinkage (set_insert vless v vs))\<rparr>)) \<and>
      ((\<forall>x\<in>set vs. vless v x \<or> vless x v) \<longrightarrow> set (set_insert vless v vs) = insert v (set vs)) \<and>
      InitExternalLinkage_device d mb =
        (True, mb\<lparr>ExternalLinkage := Some (TSerialDeviceLinkage d)\<rparr>)"
    using AssociateWith_register_linkage [of mb _ regs vless v] set_set_insert [of _ vless v]
    by (simp add: InitExternalLinkage_device_def)
  have dev: "\<forall>d0. ExternalLinkage mb = Some (TSerialDeviceLinkage d0) \<longrightarrow>
      InitExternalLinkage_device d mb = (False, mb) \<and>
      AssociateWith regs vless v mb =
        Inr (mb\<lparr>ExternalLinkage := Some (TVirtualRegisterLinkage [v])\<rparr>)"
    by (simp add: AssociateWith_device_linkage InitExternalLinkage_device_def)
  from none reg dev show ?thesis
    by (intro conjI)
qed

theorem linkage_transitions_witness:
  "ExternalLinkage (block_at 100) = None \<and>
   AssociateWith regs_readonly (<) 1 (block_at 100) = Inr mb_linked \<and>
   ExternalLinkage mb_linked = Some (TVirtualRegisterLinkage [1]) \<and>
   AssociateWith regs_readonly (<) 2 mb_linked =
     Inr (mb_linked\<lparr>ExternalLinkage := Some (TVirtualRegisterLinkage [1, 2])\<rparr>) \<and>
   set (set_insert (<) 2 [1::nat]) = insert 2 (set [1]) \<and>
   ExternalLinkage mb_device = Some (TSerialDeviceLinkage 0) \<and>
   InitExternalLinkage_device 0 mb_device = (False, mb_device)"
  using linkage_transitions [of "block_at 100" 0 regs_readonly "(<)" 1]
    linkage_transitions [of mb_linked 0 regs_readonly "(<)" 2]
    linkage_transitions [of mb_device 0 regs_readonly "(<)" 1]
  by (simp add: block_at_def mb_linked_def mb_device_def regs_readonly_def)

text \<open>
  The block at 100 as a device creates it has the device linkage; associating a register
  with it installs the register linkage in its place.
\<close>

theorem AssociateWith_switches_variant:
  "ExternalLinkage mb_device = Some (TSerialDeviceLinkage 0) \<and>
   AssociateWith regs_readonly (<) 1 mb_device = Inr mb_linked \<and>
   ExternalLinkage mb_linked = Some (TVirtualRegisterLinkage [1])"
  by (simp add: AssociateWith_def InitExternalLinkage_vreg_def LinkWithImpl_def mb_device_def
      mb_linked_def block_at_def)

section \<open>Cache necessity\<close>

lemma AnyOf_total:
  assumes "\<forall>x\<in>set xs. p x = Inr (q x)"
  shows "AnyOf p xs = Inr (\<exists>x\<in>set xs. q x)"
  using assms by (induction xs) auto

text \<open>
  C4 (amended). For a block with a register linkage, whose linked registers (at least
  one) all bind the block, \<open>NeedsCaching\<close> returns true exactly when the block's type is
  not read-only and at least one linked register is itself not read-only and has a
  \<open>BindInfo\<close> for the block other than the full coverage \<open>[0, Size * 8)\<close>.
\<close>

theorem NeedsCaching_register_linkage:
  assumes "ExternalLinkage mb = Some (TVirtualRegisterLinkage vs)"
    and "vs \<noteq> []"
    and "\<forall>v\<in>set vs. GetMemoryBlockBindInfo (regs v) mb = Inr (bind v)"
  shows "NeedsCaching regs mb =
     Inr (\<not> TypeReadOnly (Type mb) \<and>
          (\<exists>v\<in>set vs. \<not> ReadOnly (regs v) \<and> bind v \<noteq> \<lparr>BitStart = 0, BitEnd = Size mb * 8\<rparr>))"
proof -
  let ?full = "\<lparr>BitStart = 0, BitEnd = Size mb * 8\<rparr>"
  let ?p = "\<lambda>wvreg.
              let vreg = regs wvreg;
                  writable = (\<not> TypeReadOnly (Type mb) \<and> \<not> ReadOnly vreg)
              in case GetMemoryBlockBindInfo vreg mb of
                   Inl e \<Rightarrow> Inl e
                 | Inr bindInfo \<Rightarrow> Inr (writable \<and> bindInfo \<noteq> ?full)"
  have "\<forall>v\<in>set vs. ?p v =
      Inr ((\<not> TypeReadOnly (Type mb) \<and> \<not> ReadOnly (regs v)) \<and> bind v \<noteq> ?full)"
    using assms(3) by (simp add: Let_def)
  then have "AnyOf ?p vs =
      Inr (\<exists>v\<in>set vs. (\<not> TypeReadOnly (Type mb) \<and> \<not> ReadOnly (regs v)) \<and> bind v \<noteq> ?full)"
    by (rule AnyOf_total)
  then show ?thesis
    using assms(1,2) by (auto simp add: NeedsCaching_def Linkage_NeedsCaching_def Let_def)
qed

theorem NeedsCaching_register_linkage_witness:
  "ExternalLinkage mb_linked = Some (TVirtualRegisterLinkage [1]) \<and>
   GetMemoryBlockBindInfo (regs_writable 1) mb_linked = Inr \<lparr>BitStart = 0, BitEnd = 8\<rparr> \<and>
   NeedsCaching regs_writable mb_linked = Inr True"
proof -
  have l: "ExternalLinkage mb_linked = Some (TVirtualRegisterLinkage [1])"
    by (simp add: mb_linked_def)
  have b: "\<forall>v\<in>set [1::nat]. GetMemoryBlockBindInfo (regs_writable v) mb_linked =
             Inr ((\<lambda>v. \<lparr>BitStart = 0, BitEnd = 8\<rparr>) v)"
    by (simp add: GetMemoryBlockBindInfo_def regs_writable_def reg_writable_partial_def
        mb_linked_def block_at_def block_less_def)
  have "NeedsCaching regs_writable mb_linked = Inr True"
    using NeedsCaching_register_linkage [OF l _ b]
    by (simp add: mb_linked_def block_at_def type_holding_def regs_writable_def
        reg_writable_partial_def reg_fresh_def)
  with l b show ?thesis
    by simp
qed

text \<open>
  The block at 100 is of a writable type and is linked with one register, which is
  read-only and covers the low byte only, not the 16 bits of the block: \<open>NeedsCaching\<close>
  is false.
\<close>

theorem NeedsCaching_readonly_register:
  "\<not> TypeReadOnly (Type mb_linked) \<and>
   ExternalLinkage mb_linked = Some (TVirtualRegisterLinkage [1]) \<and>
   GetMemoryBlockBindInfo (regs_readonly 1) mb_linked = Inr \<lparr>BitStart = 0, BitEnd = 8\<rparr> \<and>
   \<lparr>BitStart = 0, BitEnd = 8\<rparr> \<noteq> \<lparr>BitStart = 0, BitEnd = Size mb_linked * 8\<rparr> \<and>
   NeedsCaching regs_readonly mb_linked = Inr False"
  by (simp add: NeedsCaching_def Linkage_NeedsCaching_def GetMemoryBlockBindInfo_def
      regs_readonly_def reg_readonly_partial_def mb_linked_def block_at_def type_holding_def
      block_less_def Let_def)

section \<open>Holes\<close>

subsection \<open>Addresses that fit a C++ int\<close>

lemma sint_small:
  assumes "(x::u32) < 0x80000000"
  shows "sint x = uint x"
proof -
  from assms have u: "uint x < 2 ^ 31"
    by (simp add: word_less_def)
  have "- (2 ^ 31) \<le> (0::int)"
    by simp
  also have "0 \<le> uint x"
    by simp
  finally have z: "- (2 ^ 31) \<le> uint x" .
  have "sint x = signed_take_bit 31 (uint x)"
    by (simp add: sint_uint)
  also have "\<dots> = uint x"
    using z u by (rule signed_take_bit_int_eq_self)
  finally show ?thesis .
qed

lemma sless_small:
  "(p::u32) < 0x80000000 \<Longrightarrow> (x::u32) < 0x80000000 \<Longrightarrow> (p <s x) = (p < x)"
  by (simp add: word_sless_alt sint_small word_less_def)

lemma sle_zero_small: "(p::u32) < 0x80000000 \<Longrightarrow> 0 \<le>s p"
  by (simp add: word_sle_eq sint_small)

lemma sless_m1_small:
  assumes "(x::u32) < 0x80000000"
  shows "(- 1) <s x"
proof -
  have "sint x = uint x"
    using assms by (rule sint_small)
  moreover have "0 \<le> uint x"
    by simp
  ultimately have "(- 1 :: int) < sint x"
    by linarith
  then show ?thesis
    by (simp add: word_sless_alt)
qed

lemma not_sle_zero_m1: "\<not> (0::u32) \<le>s - 1"
  by (simp add: word_sle_eq)

lemma unat_gap: "(p::u32) < x \<Longrightarrow> unat (x - p - 1) = unat x - unat p - 1"
  by (simp add: unat_minus_one unat_sub)

lemma unat_max: "unat (max (a::u32) b) = max (unat a) (unat b)"
  by (simp add: max_def word_le_nat_alt)

lemma unat_count:
  assumes "(lo::u32) \<le> hi" and "hi < 0x80000000"
  shows "unat (hi - lo + 1) = unat hi - unat lo + 1"
proof -
  have d: "unat (hi - lo) = unat hi - unat lo"
    using assms(1) by (rule unat_sub)
  have "unat hi < 2 ^ 31"
    using assms(2) by (simp add: word_less_nat_alt)
  then have "unat (hi - lo) + unat (1::u32) < 2 ^ LENGTH(32)"
    using d by simp
  then have "unat (hi - lo + 1) = unat (hi - lo) + unat (1::u32)"
    by (simp only: unat_add_lem [THEN iffD1])
  with d show ?thesis
    by simp
qed

subsection \<open>The loop of GetMaxHoleSize\<close>

lemma GetMaxHoleSize_loop_sorted:
  assumes "sorted_wrt (<) (map Address bs)"
    and "\<forall>mb\<in>set bs. Address mb < 0x80000000"
    and "prev < 0x80000000"
    and "\<forall>mb\<in>set bs. prev < Address mb"
  shows "\<exists>w. GetMaxHoleSize_loop hole prev bs = Inr w \<and>
             unat w = max (unat hole) (spec_LargestGap (unat prev # spec_Addresses bs))"
  using assms
proof (induction bs arbitrary: hole prev)
  case Nil
  then show ?case by (simp add: spec_Addresses_def)
next
  case (Cons mb rest)
  have mb: "Address mb < 0x80000000" and lt: "prev < Address mb"
    using Cons.prems by simp_all
  have step: "GetMaxHoleSize_loop hole prev (mb # rest) =
      GetMaxHoleSize_loop (max hole (Address mb - prev - 1)) (Address mb) rest"
    using mb lt Cons.prems(3) by (simp add: sless_small sle_zero_small)
  have "\<exists>w. GetMaxHoleSize_loop (max hole (Address mb - prev - 1)) (Address mb) rest = Inr w \<and>
          unat w = max (unat (max hole (Address mb - prev - 1)))
                     (spec_LargestGap (unat (Address mb) # spec_Addresses rest))"
    using Cons.prems mb by (intro Cons.IH) auto
  then obtain w
    where w: "GetMaxHoleSize_loop (max hole (Address mb - prev - 1)) (Address mb) rest = Inr w"
      and u: "unat w = max (unat (max hole (Address mb - prev - 1)))
                         (spec_LargestGap (unat (Address mb) # spec_Addresses rest))"
    by blast
  have "unat w = max (unat hole) (spec_LargestGap (unat prev # spec_Addresses (mb # rest)))"
    using u lt by (simp add: unat_max unat_gap spec_Addresses_def max.assoc)
  with w step show ?case
    by simp
qed

lemma GetMaxHoleSize_loop_start:
  assumes "sorted_wrt (<) (map Address bs)"
    and "\<forall>mb\<in>set bs. Address mb < 0x80000000"
  shows "\<exists>w. GetMaxHoleSize_loop 0 (- 1) bs = Inr w \<and>
             unat w = spec_LargestGap (spec_Addresses bs)"
proof (cases bs)
  case Nil
  then show ?thesis by (simp add: spec_Addresses_def)
next
  case (Cons mb rest)
  have mb: "Address mb < 0x80000000"
    using assms(2) Cons by simp
  have step: "GetMaxHoleSize_loop 0 (- 1) (mb # rest) = GetMaxHoleSize_loop 0 (Address mb) rest"
    using mb by (simp add: sless_m1_small not_sle_zero_m1)
  have "\<exists>w. GetMaxHoleSize_loop 0 (Address mb) rest = Inr w \<and>
          unat w = max (unat (0::u32)) (spec_LargestGap (unat (Address mb) # spec_Addresses rest))"
    using assms Cons mb by (intro GetMaxHoleSize_loop_sorted) auto
  then obtain w where "GetMaxHoleSize_loop 0 (Address mb) rest = Inr w"
    and "unat w = spec_LargestGap (spec_Addresses (mb # rest))"
    by (auto simp add: spec_Addresses_def)
  with step Cons show ?thesis
    by simp
qed

subsection \<open>The device-wide range\<close>

lemma range_bounds:
  fixes a b c :: u32 and x y z :: u32
  assumes "a = c"
  shows "(\<not> (b < a \<or> (b = a \<and> y < x)) \<and> \<not> (c < b \<or> (c = b \<and> z < y))) =
         (b = a \<and> x \<le> y \<and> y \<le> z)"
  using assms by auto

lemma range_member:
  assumes "Index (Type f) = Index (Type l)"
  shows "(\<not> block_less mb f \<and> \<not> block_less l mb) =
         (Index (Type mb) = Index (Type f) \<and> Address f \<le> Address mb \<and> Address mb \<le> Address l)"
  unfolding block_less_def
  using range_bounds [OF assms, where b = "Index (Type mb)" and x = "Address f"
      and y = "Address mb" and z = "Address l"]
  by blast

lemma range_eq_hull:
  assumes "Index (Type f) = Index (Type l)"
  shows "StaticCreateMemoryBlockRange dev f l =
         spec_BlocksInHull dev (Index (Type f)) (Address f) (Address l)"
  by (simp only: StaticCreateMemoryBlockRange_def spec_BlocksInHull_def range_member [OF assms])

lemma hull_sorted:
  assumes "sorted_wrt block_less dev"
  shows "sorted_wrt (<) (map Address (spec_BlocksInHull dev t lo hi))"
proof -
  have "sorted_wrt block_less (spec_BlocksInHull dev t lo hi)"
    unfolding spec_BlocksInHull_def using assms by (rule sorted_wrt_filter)
  then have "sorted_wrt (\<lambda>x y. Address x < Address y) (spec_BlocksInHull dev t lo hi)"
    by (rule sorted_wrt_mono_rel [rotated]) (simp add: spec_BlocksInHull_def block_less_def)
  then show ?thesis
    by (simp add: sorted_wrt_map)
qed

lemma GetMaxHoleSize_spec:
  assumes "sorted_wrt block_less dev"
    and "\<forall>mb\<in>set dev. Address mb < 0x80000000"
    and "Index (Type f) = Index (Type l)"
    and "Address f \<le> Address l"
  shows "\<exists>w. GetMaxHoleSize dev f l = Inr w \<and>
             unat w = spec_LargestGap (spec_Addresses
                        (spec_BlocksInHull dev (Index (Type f)) (Address f) (Address l)))"
proof -
  have "\<forall>mb\<in>set (spec_BlocksInHull dev (Index (Type f)) (Address f) (Address l)).
          Address mb < 0x80000000"
    using assms(2) by (simp add: spec_BlocksInHull_def)
  with hull_sorted [OF assms(1)]
  have "\<exists>w. GetMaxHoleSize_loop 0 (- 1)
               (spec_BlocksInHull dev (Index (Type f)) (Address f) (Address l)) = Inr w \<and>
             unat w = spec_LargestGap (spec_Addresses
                        (spec_BlocksInHull dev (Index (Type f)) (Address f) (Address l)))"
    by (rule GetMaxHoleSize_loop_start)
  then show ?thesis
    using assms(3,4) by (simp add: GetMaxHoleSize_def range_eq_hull)
qed

subsection \<open>Well-formed block sets\<close>

lemma sorted_hd_last:
  assumes "sorted_wrt block_less s" and "s \<noteq> []"
    and "\<forall>mb\<in>set s. Index (Type mb) = t"
  shows "Address (hd s) \<le> Address (last s)"
proof (cases s)
  case Nil
  with assms(2) show ?thesis by simp
next
  case (Cons x xs)
  show ?thesis
  proof (cases "xs = []")
    case True
    with Cons show ?thesis by simp
  next
    case False
    then have "last xs \<in> set xs"
      by simp
    with assms(1) Cons have "block_less x (last xs)"
      by simp
    moreover have "Index (Type x) = Index (Type (last xs))"
      using assms(3) Cons \<open>last xs \<in> set xs\<close> by simp
    ultimately have "Address x < Address (last xs)"
      by (simp add: block_less_def)
    with Cons False show ?thesis
      by simp
  qed
qed

section \<open>The merge condition\<close>


section \<open>Limits per block type\<close>

text \<open>
  C7. For a Read operation and a block type \<open>T\<close>, the limits handed to the merge are:
  as \<open>maxRegs\<close>, with the protocol maximum being \<open>GetMaxReadBits\<close> for a single-bit type and
  \<open>GetMaxReadRegisters\<close> otherwise, the minimum of the device's \<open>MaxReadRegisters\<close> and the
  protocol maximum when \<open>MaxReadRegisters\<close> is greater than 0, and the protocol maximum
  alone otherwise; as \<open>maxHole\<close>, under Minify the device's \<open>MaxBitHole\<close> for a single-bit
  type and its \<open>MaxRegHole\<close> otherwise, and under NoDuplicates 0.
\<close>

theorem getMaxHoleAndRegs_Read:
  "fst (GenerateQueries_typeInfo deviceConfig protocolInfo Read policy T) =
     (case policy of
        Minify \<Rightarrow> (if IsSingleBitType protocolInfo T then MaxBitHole deviceConfig
                    else MaxRegHole deviceConfig)
      | NoDuplicates \<Rightarrow> 0) \<and>
   unat (snd (GenerateQueries_typeInfo deviceConfig protocolInfo Read policy T)) =
     (let protocolMaximum = (if IsSingleBitType protocolInfo T then GetMaxReadBits protocolInfo
                             else GetMaxReadRegisters protocolInfo)
      in if 0 < sint (MaxReadRegisters deviceConfig)
         then min (unat (MaxReadRegisters deviceConfig)) (unat protocolMaximum)
         else unat protocolMaximum)"
  by (cases policy)
    (simp_all add: GenerateQueries_typeInfo_def getMaxHoleAndRegs_def IsReadOperation_def Let_def
      word_sless_alt min_def word_le_nat_alt)

section \<open>The check of the input sets\<close>

lemma CheckSets_types_ok:
  "CheckSets_types idx sz s = Inr () \<longleftrightarrow> (\<forall>mb\<in>set s. Index (Type mb) = idx \<and> Size mb = sz)"
  by (induction s) auto

lemma CheckSets_types_error:
  "CheckSets_types idx sz s = Inr () \<or> CheckSets_types idx sz s = Inl TSerialDeviceException"
  by (induction s) auto

lemma CheckSets_body_mixed:
  assumes "\<not> (\<forall>mb\<in>set s. Index (Type mb) = Index (GetType s))"
  shows "CheckSets_body deviceBlocks typeInfo s \<noteq> Inr ()"
proof -
  have "CheckSets_types (Index (GetType s)) (GetSize s) s \<noteq> Inr ()"
    using assms by (auto simp add: CheckSets_types_ok)
  then show ?thesis
    by (auto simp add: CheckSets_body_def split: prod.splits sum.splits)
qed

lemma CheckSets_body_one_type:
  assumes dev: "sorted_wrt block_less deviceBlocks"
      "\<forall>mb\<in>set deviceBlocks. Address mb < 0x80000000"
    and s: "s \<noteq> []" "sorted_wrt block_less s" "set s \<subseteq> set deviceBlocks"
    and one: "\<forall>mb\<in>set s. Index (Type mb) = Index (GetType s)"
  shows "CheckSets_body deviceBlocks typeInfo s =
           (if spec_SetWithinLimits deviceBlocks typeInfo s then Inr ()
            else Inl TSerialDeviceException)"
proof -
  obtain maxHole maxRegs where ti: "typeInfo (GetType s) = (maxHole, maxRegs)"
    by (cases "typeInfo (GetType s)")
  have mem: "hd s \<in> set s" "last s \<in> set s"
    using s(1) by simp_all
  have "Index (Type (hd s)) = Index (GetType s)" "Index (Type (last s)) = Index (GetType s)"
    using one mem by blast+
  then have ty: "Index (Type (hd s)) = Index (Type (last s))"
    by simp
  have le: "Address (hd s) \<le> Address (last s)"
    using s(2,1) one by (rule sorted_hd_last)
  have small: "Address (last s) < 0x80000000"
    using mem s(3) dev(2) by blast
  obtain w where w: "GetMaxHoleSize deviceBlocks (hd s) (last s) = Inr w"
    and u: "unat w = spec_LargestGap (spec_Addresses
              (spec_BlocksInHull deviceBlocks (Index (Type (hd s)))
                 (Address (hd s)) (Address (last s))))"
    using GetMaxHoleSize_spec [OF dev ty le] by auto
  have u': "unat w = spec_LargestGap (spec_Addresses
              (spec_BlocksInHull deviceBlocks (Index (GetType s))
                 (Address (hd s)) (Address (last s))))"
    using u by (simp add: GetType_def)
  have cnt: "unat (Address (last s) - Address (hd s) + 1) =
             unat (Address (last s)) - unat (Address (hd s)) + 1"
    using le small by (rule unat_count)
  have body: "CheckSets_body deviceBlocks typeInfo s =
      (if w > maxHole then Inl TSerialDeviceException
       else if Address (last s) - Address (hd s) + 1 > maxRegs then Inl TSerialDeviceException
       else CheckSets_types (Index (GetType s)) (GetSize s) s)"
    using ti w le
    by (simp add: CheckSets_body_def GetMaxHoleSize_set_def GetRegCount_set_def GetRegCount_def)
  have lim: "spec_SetWithinLimits deviceBlocks typeInfo s \<longleftrightarrow>
      CheckSets_types (Index (GetType s)) (GetSize s) s = Inr () \<and>
      \<not> w > maxHole \<and> \<not> Address (last s) - Address (hd s) + 1 > maxRegs"
    using u' cnt
    by (auto simp add: spec_SetWithinLimits_def ti CheckSets_types_ok word_less_nat_alt)
  show ?thesis
    using CheckSets_types_error [of "Index (GetType s)" "GetSize s" s]
    by (auto simp add: body lim)
qed

lemma CheckSets_limits_induct:
  assumes dev: "sorted_wrt block_less deviceBlocks"
      "\<forall>mb\<in>set deviceBlocks. Address mb < 0x80000000"
    and sets: "\<forall>e\<in>set memoryBlockSets.
                 fst e \<noteq> [] \<and> sorted_wrt block_less (fst e) \<and> set (fst e) \<subseteq> set deviceBlocks"
  shows "(CheckSets deviceBlocks memoryBlockSets typeInfo = Inr ()) =
           (\<forall>e\<in>set memoryBlockSets. spec_SetWithinLimits deviceBlocks typeInfo (fst e)) \<and>
         ((\<forall>e\<in>set memoryBlockSets. \<forall>mb\<in>set (fst e). Index (Type mb) = Index (GetType (fst e))) \<longrightarrow>
          CheckSets deviceBlocks memoryBlockSets typeInfo \<noteq> Inr () \<longrightarrow>
          CheckSets deviceBlocks memoryBlockSets typeInfo = Inl TSerialDeviceException)"
  using sets
proof (induction memoryBlockSets)
  case Nil
  then show ?case by simp
next
  case (Cons e rest)
  have e: "fst e \<noteq> []" "sorted_wrt block_less (fst e)" "set (fst e) \<subseteq> set deviceBlocks"
    using Cons.prems by simp_all
  have IH: "(CheckSets deviceBlocks rest typeInfo = Inr ()) =
           (\<forall>e\<in>set rest. spec_SetWithinLimits deviceBlocks typeInfo (fst e))"
    "(\<forall>e\<in>set rest. \<forall>mb\<in>set (fst e). Index (Type mb) = Index (GetType (fst e))) \<longrightarrow>
          CheckSets deviceBlocks rest typeInfo \<noteq> Inr () \<longrightarrow>
          CheckSets deviceBlocks rest typeInfo = Inl TSerialDeviceException"
    using Cons.IH Cons.prems by simp_all
  show ?case
  proof (cases "\<forall>mb\<in>set (fst e). Index (Type mb) = Index (GetType (fst e))")
    case True
    note body = CheckSets_body_one_type [OF dev e True, of typeInfo]
    show ?thesis
      using IH True by (auto simp add: body split: sum.splits)
  next
    case False
    then have "CheckSets_body deviceBlocks typeInfo (fst e) \<noteq> Inr ()"
      by (rule CheckSets_body_mixed)
    moreover have "\<not> spec_SetWithinLimits deviceBlocks typeInfo (fst e)"
      using False by (auto simp add: spec_SetWithinLimits_def split: prod.splits)
    ultimately show ?thesis
      using False by (auto split: sum.splits)
  qed
qed

text \<open>
  C6 (amended). Let the device's blocks be an ordered set with addresses that fit a C++
  \<^verbatim>\<open>int\<close>, and the input sets non-empty ordered sets of blocks of the device. Then
  \<open>CheckSets\<close> returns normally exactly when every input set has blocks of one type index
  and one size, a hull width, last address - first address + 1, of at most \<open>maxRegs\<close>, and
  a largest gap of at most \<open>maxHole\<close>, where the gap is taken between consecutive
  addresses of all the blocks of that type that the device has within the hull of the
  set, and not between the blocks of the set itself. \<open>CheckSets\<close> returns no value other
  than its failure, so the input list is as it was. When every input set has blocks of
  one type index, the failure is the configuration error.
\<close>

theorem CheckSets_limits:
  assumes dev: "sorted_wrt block_less deviceBlocks"
      "\<forall>mb\<in>set deviceBlocks. Address mb < 0x80000000"
    and sets: "\<forall>e\<in>set memoryBlockSets.
                 fst e \<noteq> [] \<and> sorted_wrt block_less (fst e) \<and> set (fst e) \<subseteq> set deviceBlocks"
  shows "(CheckSets deviceBlocks memoryBlockSets typeInfo = Inr ()) =
           (\<forall>e\<in>set memoryBlockSets. spec_SetWithinLimits deviceBlocks typeInfo (fst e)) \<and>
         ((\<forall>e\<in>set memoryBlockSets. \<forall>mb\<in>set (fst e). Index (Type mb) = Index (GetType (fst e))) \<longrightarrow>
          CheckSets deviceBlocks memoryBlockSets typeInfo =
            (if \<forall>e\<in>set memoryBlockSets. spec_SetWithinLimits deviceBlocks typeInfo (fst e)
             then Inr () else Inl TSerialDeviceException))"
  using CheckSets_limits_induct [OF dev sets, of typeInfo]
  by auto

theorem CheckSets_limits_witness:
  "CheckSets device_100_102 [([block_at 100], [1]), ([block_at 101, block_at 102], [2])]
     typeInfo_no_hole = Inr () \<and>
   spec_SetWithinLimits device_100_102 typeInfo_no_hole [block_at 100] \<and>
   spec_SetWithinLimits device_100_102 typeInfo_no_hole [block_at 101, block_at 102] \<and>
   CheckSets device_100_102 [([block_at 100, block_at 102], [1])] typeInfo_two_regs =
     Inl TSerialDeviceException \<and>
   \<not> spec_SetWithinLimits device_100_102 typeInfo_two_regs [block_at 100, block_at 102]"
proof -
  have dev: "sorted_wrt block_less device_100_102"
    "\<forall>mb\<in>set device_100_102. Address mb < 0x80000000"
    by (simp_all add: device_100_102_def block_at_def block_less_def)
  have sets: "\<forall>e\<in>set [([block_at 100], [1::nat]), ([block_at 101, block_at 102], [2])].
                fst e \<noteq> [] \<and> sorted_wrt block_less (fst e) \<and> set (fst e) \<subseteq> set device_100_102"
    by (simp add: device_100_102_def block_at_def block_less_def)
  have l: "spec_SetWithinLimits device_100_102 typeInfo_no_hole [block_at 100]"
    "spec_SetWithinLimits device_100_102 typeInfo_no_hole [block_at 101, block_at 102]"
    by (simp_all add: spec_SetWithinLimits_def typeInfo_no_hole_def GetType_def GetSize_def
        block_at_def type_holding_def device_100_102_def spec_BlocksInHull_def spec_Addresses_def)
  have sets': "\<forall>e\<in>set [([block_at 100, block_at 102], [1::nat])].
                fst e \<noteq> [] \<and> sorted_wrt block_less (fst e) \<and> set (fst e) \<subseteq> set device_100_102"
    by (simp add: device_100_102_def block_at_def block_less_def)
  have one: "\<forall>e\<in>set [([block_at 100, block_at 102], [1::nat])].
               \<forall>mb\<in>set (fst e). Index (Type mb) = Index (GetType (fst e))"
    by (simp add: GetType_def block_at_def)
  have l': "\<not> spec_SetWithinLimits device_100_102 typeInfo_two_regs [block_at 100, block_at 102]"
    by (simp add: spec_SetWithinLimits_def typeInfo_two_regs_def GetType_def GetSize_def
        block_at_def type_holding_def device_100_102_def spec_BlocksInHull_def spec_Addresses_def)
  from CheckSets_limits [OF dev sets, of typeInfo_no_hole]
    CheckSets_limits [OF dev sets', of typeInfo_two_regs] l l' one
  show ?thesis
    by simp
qed

text \<open>
  The input set of the blocks 100 and 103 has a gap of two addresses between its blocks,
  and the limits allow no hole; the device has the blocks 101 and 102 too, and \<open>CheckSets\<close>
  accepts the set.
\<close>

theorem CheckSets_device_wide_gap:
  "CheckSets device_100_103 [([block_at 100, block_at 103], [1])] typeInfo_no_hole = Inr () \<and>
   spec_OwnGap [block_at 100, block_at 103] = 2 \<and>
   fst (typeInfo_no_hole (GetType [block_at 100, block_at 103])) = 0"
  by (simp add: CheckSets_body_def GetMaxHoleSize_set_def GetMaxHoleSize_def
      StaticCreateMemoryBlockRange_def GetRegCount_set_def GetRegCount_def GetType_def GetSize_def
      device_100_103_def typeInfo_no_hole_def block_at_def type_holding_def block_less_def
      spec_OwnGap_def spec_Addresses_def word_sless_alt word_sle_eq)

section \<open>Merging under NoDuplicates\<close>

lemma block_less_irrefl: "\<not> block_less x x"
  by (simp add: block_less_def)

lemma block_less_asym: "block_less x y \<Longrightarrow> \<not> block_less y x"
  by (auto simp add: block_less_def)

lemma set_insert_member:
  assumes "sorted_wrt block_less xs" and "v \<in> set xs"
  shows "set_insert block_less v xs = xs"
  using assms
proof (induction xs)
  case Nil
  then show ?case by simp
next
  case (Cons x xs)
  show ?case
  proof (cases "v = x")
    case True
    then show ?thesis by (simp add: block_less_irrefl)
  next
    case False
    with Cons.prems have v: "v \<in> set xs" and lt: "block_less x v"
      by auto
    from lt have "\<not> block_less v x"
      by (rule block_less_asym)
    with lt v Cons show ?thesis
      by simp
  qed
qed

lemma fold_set_insert_subset:
  assumes "sorted_wrt block_less a" and "set b \<subseteq> set a"
  shows "fold (set_insert block_less) b a = a"
  using assms(2)
proof (induction b)
  case Nil
  then show ?case by simp
next
  case (Cons v b)
  then show ?case
    using assms(1) by (simp add: set_insert_member)
qed

lemma MergeSets_inner_noDuplicates:
  assumes "sorted_wrt block_less (fst cur)"
  shows "MergeSets_inner noDuplicatesCondition typeInfo cur rest =
     Inr ((fst cur, snd cur @ concat (map snd (filter (\<lambda>e. fst e = fst cur) rest))),
          filter (\<lambda>e. fst e \<noteq> fst cur) rest)"
  using assms
proof (induction rest arbitrary: cur)
  case Nil
  then show ?case by simp
next
  case (Cons other rest)
  show ?case
  proof (cases "fst cur = fst other")
    case True
    have f: "fold (set_insert block_less) (fst other) (fst cur) = fst cur"
      using Cons.prems True by (simp add: fold_set_insert_subset)
    have "sorted_wrt block_less (fst (fst cur, snd cur @ snd other))"
      using Cons.prems by simp
    from Cons.IH [OF this] True f show ?thesis
      by (simp add: noDuplicatesCondition_def)
  next
    case False
    from Cons.IH [OF Cons.prems] False show ?thesis
      by (auto simp add: noDuplicatesCondition_def)
  qed
qed

lemma mset_concat_partition:
  "mset (concat (map f (filter P xs))) + mset (concat (map f (filter (\<lambda>x. \<not> P x) xs))) =
   mset (concat (map f xs))"
  by (induction xs) auto

lemma MergeSets_outer_noDuplicates:
  assumes "\<forall>e\<in>set sets. sorted_wrt block_less (fst e)"
  shows "\<exists>merged. MergeSets_outer noDuplicatesCondition typeInfo sets = Inr merged \<and>
     distinct (map fst merged) \<and> set (map fst merged) = set (map fst sets) \<and>
     (\<forall>e\<in>set merged. snd e = concat (map snd (filter (\<lambda>i. fst i = fst e) sets))) \<and>
     mset (concat (map snd merged)) = mset (concat (map snd sets))"
  using assms
proof (induction sets rule: length_induct)
  case (1 sets)
  show ?case
  proof (cases sets)
    case Nil
    then show ?thesis by simp
  next
    case (Cons cur rest)
    define rest' where "rest' = filter (\<lambda>e. fst e \<noteq> fst cur) rest"
    define cur' where
      "cur' = (fst cur, snd cur @ concat (map snd (filter (\<lambda>e. fst e = fst cur) rest)))"
    have inner: "MergeSets_inner noDuplicatesCondition typeInfo cur rest = Inr (cur', rest')"
      using "1.prems" Cons by (simp add: MergeSets_inner_noDuplicates cur'_def rest'_def)
    have "length rest' < length sets"
      using Cons by (simp add: rest'_def less_Suc_eq_le)
    moreover have "\<forall>e\<in>set rest'. sorted_wrt block_less (fst e)"
      using "1.prems" Cons by (simp add: rest'_def)
    ultimately obtain merged
      where m: "MergeSets_outer noDuplicatesCondition typeInfo rest' = Inr merged"
        and d: "distinct (map fst merged)"
        and s: "set (map fst merged) = set (map fst rest')"
        and v: "\<forall>e\<in>set merged. snd e = concat (map snd (filter (\<lambda>i. fst i = fst e) rest'))"
        and p: "mset (concat (map snd merged)) = mset (concat (map snd rest'))"
      using "1.IH" by blast
    have out: "MergeSets_outer noDuplicatesCondition typeInfo sets = Inr (cur' # merged)"
      using Cons inner m by simp
    have notin: "fst cur \<notin> set (map fst merged)"
      unfolding s by (auto simp add: rest'_def)
    have d': "distinct (map fst (cur' # merged))"
      using d notin by (simp add: cur'_def)
    have s': "set (map fst (cur' # merged)) = set (map fst sets)"
      using s Cons by (auto simp add: cur'_def rest'_def)
    have v': "\<forall>e\<in>set (cur' # merged).
                snd e = concat (map snd (filter (\<lambda>i. fst i = fst e) sets))"
    proof
      fix e
      assume "e \<in> set (cur' # merged)"
      then consider "e = cur'" | "e \<in> set merged"
        by auto
      then show "snd e = concat (map snd (filter (\<lambda>i. fst i = fst e) sets))"
      proof cases
        case 1
        then show ?thesis
          using Cons by (simp add: cur'_def cong: filter_cong)
      next
        case 2
        then have "fst e \<in> set (map fst merged)"
          by simp
        with notin have ne: "fst e \<noteq> fst cur"
          by metis
        have "filter (\<lambda>i. fst i = fst e) rest' = filter (\<lambda>i. fst i = fst e) rest"
          unfolding rest'_def using ne by (auto intro: filter_cong)
        with v 2 ne Cons show ?thesis
          by auto
      qed
    qed
    have "mset (snd cur') + mset (concat (map snd rest')) =
          mset (snd cur) + mset (concat (map snd rest))"
      using mset_concat_partition [of snd "\<lambda>e. fst e = fst cur" rest]
      by (simp add: cur'_def rest'_def)
    then have p': "mset (concat (map snd (cur' # merged))) = mset (concat (map snd sets))"
      using p Cons by simp
    from out d' s' v' p' show ?thesis
      by blast
  qed
qed

text \<open>
  C5 (amended). When the check of the input sets passes and every input block set is an
  ordered set, \<open>MergeSets\<close> under NoDuplicates returns normally; the block sets of the
  output entries are the distinct block sets of the input, each once, so that the output
  has as many entries as the input has distinct block sets; the register list of an output
  entry is the concatenation, in input order, of the register lists of exactly the input
  entries that carry its block set, which is the block set of each of them unchanged; and
  the register lists of the output together hold the registers of the input, each as often
  as the input does. The concatenation of the output lists is a rearrangement of the input
  registers: it need not follow the input order.
\<close>

theorem MergeSets_NoDuplicates:
  assumes "CheckSets deviceBlocks memoryBlockSets typeInfo = Inr ()"
    and "\<forall>e\<in>set memoryBlockSets. sorted_wrt block_less (fst e)"
  shows "\<exists>merged. MergeSets deviceBlocks memoryBlockSets typeInfo NoDuplicates = Inr merged \<and>
     distinct (map fst merged) \<and> set (map fst merged) = set (map fst memoryBlockSets) \<and>
     length merged = card (set (map fst memoryBlockSets)) \<and>
     (\<forall>e\<in>set merged.
        snd e = concat (map snd (filter (\<lambda>i. fst i = fst e) memoryBlockSets))) \<and>
     mset (concat (map snd merged)) = mset (concat (map snd memoryBlockSets))"
proof -
  obtain merged
    where m: "MergeSets_outer noDuplicatesCondition typeInfo memoryBlockSets = Inr merged"
      and d: "distinct (map fst merged)"
      and s: "set (map fst merged) = set (map fst memoryBlockSets)"
      and v: "\<forall>e\<in>set merged.
                snd e = concat (map snd (filter (\<lambda>i. fst i = fst e) memoryBlockSets))"
      and p: "mset (concat (map snd merged)) = mset (concat (map snd memoryBlockSets))"
    using MergeSets_outer_noDuplicates [OF assms(2), of typeInfo] by blast
  have "MergeSets deviceBlocks memoryBlockSets typeInfo NoDuplicates = Inr merged"
    using assms(1) m by (simp add: MergeSets_def)
  moreover have "length merged = card (set (map fst memoryBlockSets))"
    using distinct_card [OF d] s by simp
  ultimately show ?thesis
    using d s v p by blast
qed

lemma CheckSets_sets_interleaved:
  "CheckSets device_100_102 sets_interleaved typeInfo_no_hole = Inr ()"
  by (simp add: sets_interleaved_def CheckSets_body_def GetMaxHoleSize_set_def GetMaxHoleSize_def
      StaticCreateMemoryBlockRange_def GetRegCount_set_def GetRegCount_def GetType_def GetSize_def
      device_100_102_def typeInfo_no_hole_def block_at_def type_holding_def block_less_def
      word_sless_alt word_sle_eq)

theorem MergeSets_NoDuplicates_witness:
  "CheckSets device_100_102 sets_interleaved typeInfo_no_hole = Inr () \<and>
   (\<exists>merged. MergeSets device_100_102 sets_interleaved typeInfo_no_hole NoDuplicates = Inr merged \<and>
      length merged = 2 \<and>
      set (map fst merged) = {[block_at 100], [block_at 101]} \<and>
      mset (concat (map snd merged)) = {#1, 2, 3#})"
proof -
  have s: "\<forall>e\<in>set sets_interleaved. sorted_wrt block_less (fst e)"
    by (simp add: sets_interleaved_def)
  have f: "set (map fst sets_interleaved) = {[block_at 100], [block_at 101]}"
    by (auto simp add: sets_interleaved_def)
  have "block_at 100 \<noteq> block_at 101"
    by (simp add: block_at_def)
  then have c: "card (set (map fst sets_interleaved)) = 2"
    unfolding f by simp
  have r: "mset (concat (map snd sets_interleaved)) = {#1, 2, 3#}"
    by (simp add: sets_interleaved_def)
  from MergeSets_NoDuplicates [OF CheckSets_sets_interleaved s] c f r
  show ?thesis
    by (auto simp add: CheckSets_sets_interleaved)
qed

text \<open>
  On the three entries of \<open>sets_interleaved\<close>, the first and the third are merged, and the
  register lists of the output concatenate to 1, 3, 2, while the input registers are
  1, 2, 3.
\<close>

theorem MergeSets_NoDuplicates_interleaved:
  "MergeSets device_100_102 sets_interleaved typeInfo_no_hole NoDuplicates =
     Inr [([block_at 100], [1, 3]), ([block_at 101], [2])] \<and>
   concat (map snd [([block_at 100], [1, 3]), ([block_at 101], [2::nat])]) = [1, 3, 2] \<and>
   concat (map snd sets_interleaved) = [1, 2, 3]"
proof -
  have n: "block_at 100 \<noteq> block_at 101"
    by (simp add: block_at_def)
  have "MergeSets_outer noDuplicatesCondition typeInfo_no_hole sets_interleaved =
          Inr [([block_at 100], [1, 3]), ([block_at 101], [2])]"
    using n by (simp add: sets_interleaved_def noDuplicatesCondition_def block_less_irrefl)
  then show ?thesis
    by (simp add: MergeSets_def CheckSets_sets_interleaved) (simp add: sets_interleaved_def)
qed

section \<open>Merging under Minify\<close>








end
